theory Spec2Isabelle
  imports Complex_Main "HOL-Library.Sublist" "HOL-Library.Multiset" "HOL-Library.Product_Lexorder"
begin

section \<open>Statement aggregator: the normalisation, categorisation and threshold pipeline\<close>

text \<open>
  A shallow embedding of the Python sources \<^verbatim>\<open>etl/*.py\<close> and \<^verbatim>\<open>main.py\<close>.
  Conventions of the embedding:
  \<^item> a pandas DataFrame is the list of its rows in positional order, each row paired with
    its index label;
  \<^item> a float cell is either a finite number or NaN; finite numbers are rationals and
    arithmetic on them is exact (rounding is not modelled; comparison, negation, absolute
    value and the sign of a difference agree with IEEE arithmetic on finite values);
  \<^item> a Python exception is a value of \<open>py_error\<close>, returned in the left summand;
  \<^item> the text-to-value conversions of pandas (CSV parsing, \<^verbatim>\<open>astype(float)\<close>,
    \<^verbatim>\<open>to_datetime\<close>) are not modelled: cells hold the converted value.
\<close>

subsection \<open>Values\<close>

datatype py_error = KeyError | ValueError | TypeError | OSError

datatype pyfloat = Fin rat | NaN

fun isnan :: "pyfloat \<Rightarrow> bool" where
  "isnan NaN = True"
| "isnan (Fin _) = False"

text \<open>Comparisons with NaN are false, as in Python.\<close>

fun py_le :: "pyfloat \<Rightarrow> pyfloat \<Rightarrow> bool" where
  "py_le (Fin a) (Fin b) = (a \<le> b)"
| "py_le _ _ = False"

fun py_gt :: "pyfloat \<Rightarrow> pyfloat \<Rightarrow> bool" where
  "py_gt (Fin a) (Fin b) = (a > b)"
| "py_gt _ _ = False"

fun py_abs :: "pyfloat \<Rightarrow> pyfloat" where
  "py_abs (Fin a) = Fin \<bar>a\<bar>"
| "py_abs NaN = NaN"

fun py_sub :: "pyfloat \<Rightarrow> pyfloat \<Rightarrow> pyfloat" where
  "py_sub (Fin a) (Fin b) = Fin (a - b)"
| "py_sub _ _ = NaN"

fun py_neg :: "pyfloat \<Rightarrow> pyfloat" where
  "py_neg (Fin a) = Fin (- a)"
| "py_neg NaN = NaN"

text \<open>\<^verbatim>\<open>Series.fillna(0)\<close> on one cell.\<close>

fun fillna0 :: "pyfloat \<Rightarrow> pyfloat" where
  "fillna0 NaN = Fin 0"
| "fillna0 (Fin a) = Fin a"

text \<open>A calendar date (year, month, day); the order is lexicographic.\<close>

type_synonym date = "nat \<times> nat \<times> nat"

subsection \<open>Categorisation (\<^verbatim>\<open>etl/categorization.py\<close>)\<close>

text \<open>
  \<^verbatim>\<open>str.upper\<close>, on the ASCII letters; every other character is left as it is.
\<close>

definition to_upper :: "char \<Rightarrow> char" where
  "to_upper c =
     (let n = (of_char c :: nat) in if 97 \<le> n \<and> n \<le> 122 then char_of (n - 32) else c)"

definition upper :: "string \<Rightarrow> string" where
  "upper s = map to_upper s"

text \<open>
  \<^verbatim>\<open>CATEGORY_KEYWORDS\<close> is loaded from \<^verbatim>\<open>config/categories.json\<close>, which is not
  part of the sources: it is a parameter, an association list in the order of the JSON
  object (the iteration order of the Python dict). \<^verbatim>\<open>a in b\<close> on strings is the
  contiguous-substring test \<^const>\<open>sublist\<close>.
\<close>

type_synonym category_keywords = "(string \<times> string list) list"

text \<open>The inner loop over one category's keywords: does it reach \<^verbatim>\<open>return category\<close>?\<close>

fun keyword_loop :: "string list \<Rightarrow> string \<Rightarrow> bool" where
  "keyword_loop [] desc_upper = False"
| "keyword_loop (keyword # keywords) desc_upper =
     (if sublist (upper keyword) desc_upper then True else keyword_loop keywords desc_upper)"

fun category_loop :: "category_keywords \<Rightarrow> string \<Rightarrow> string" where
  "category_loop [] desc_upper = ''Uncategorized''"
| "category_loop ((category, keywords) # rest) desc_upper =
     (if keyword_loop keywords desc_upper then category else category_loop rest desc_upper)"

definition categorize_transaction :: "category_keywords \<Rightarrow> string \<Rightarrow> string" where
  "categorize_transaction CATEGORY_KEYWORDS description =
     category_loop CATEGORY_KEYWORDS (upper description)"


subsection \<open>Rows and frames\<close>

text \<open>
  The canonical columns. \<open>date\<close> is \<open>None\<close> for a missing date (NaT), \<open>amount\<close> is
  NaN for a missing amount; the text columns always hold text. A record extension adds
  columns to a row, as an assignment to a new column does in the source.
\<close>

record core_cols =
  date :: "date option"
  amount :: pyfloat
  description :: string

record txn = core_cols +
  account :: string
  category :: string

type_synonym 'r frame = "(nat \<times> 'r) list"

text \<open>The default index of a frame that was just read or whose index was reset: 0, 1, ...\<close>

definition range_index :: "'r list \<Rightarrow> 'r frame" where
  "range_index rs = zip [0..<length rs] rs"

subsection \<open>Statement adapters (\<^verbatim>\<open>etl/*_etl.py\<close>)\<close>

text \<open>
  Each adapter takes the file's path and, in place of reading the file, the rows that
  \<^verbatim>\<open>read_csv\<close> returns for it. The CIBC file has no header line: the adapter names
  its columns \<open>date, description, amount, CR, accct_no\<close>. The other files carry the
  header names \<open>Date, Description\<close> and \<open>Amount\<close> (Scotia, AMEX) or \<open>Debit, Credit\<close> (RBC).
\<close>

record cibc_row = core_cols +
  CR :: pyfloat
  accct_no :: string

record header_row =
  Date :: "date option"
  Description :: string

record amount_row = header_row +
  Amount :: pyfloat

record rbc_row = header_row +
  Debit :: pyfloat
  Credit :: pyfloat

definition cibc_account :: "string \<Rightarrow> string" where
  "cibc_account file_path =
     (if sublist ''Chq'' file_path then ''CIBC Chequing''
      else if sublist ''67781'' file_path then ''CIBC LOC 67781''
      else if sublist ''Indvl'' file_path then ''CIBC Individual''
      else ''CIBC Costco CC'')"

definition process_cibc_statement ::
  "category_keywords \<Rightarrow> string \<Rightarrow> cibc_row list \<Rightarrow> txn frame" where
  "process_cibc_statement CATEGORY_KEYWORDS file_path csv =
     range_index (map (\<lambda>r.
       \<lparr>date = date r, amount = amount r, description = description r,
        account = cibc_account file_path,
        category = categorize_transaction CATEGORY_KEYWORDS (description r)\<rparr>) csv)"

definition process_scotia_statement ::
  "category_keywords \<Rightarrow> string \<Rightarrow> amount_row list \<Rightarrow> txn frame" where
  "process_scotia_statement CATEGORY_KEYWORDS file_path csv =
     range_index (map (\<lambda>r.
       \<lparr>date = Date r, amount = py_neg (Amount r), description = Description r,
        account = ''Scotiabank'',
        category = categorize_transaction CATEGORY_KEYWORDS (Description r)\<rparr>) csv)"

definition process_amex_statement ::
  "category_keywords \<Rightarrow> string \<Rightarrow> amount_row list \<Rightarrow> txn frame" where
  "process_amex_statement CATEGORY_KEYWORDS file_path csv =
     range_index (map (\<lambda>r.
       \<lparr>date = Date r, amount = Amount r, description = Description r,
        account = (if sublist ''Gold'' file_path then ''AMEX Gold'' else ''AMEX Cobalt''),
        category = categorize_transaction CATEGORY_KEYWORDS (Description r)\<rparr>) csv)"

text \<open>
  RBC: the two columns are merged as \<open>Debit - Credit\<close>, blank cells counting 0, and the
  last statement of the adapter flips the sign of the merged amount.
\<close>

definition process_rbc_statement ::
  "category_keywords \<Rightarrow> string \<Rightarrow> rbc_row list \<Rightarrow> txn frame" where
  "process_rbc_statement CATEGORY_KEYWORDS file_path csv =
     range_index (map (\<lambda>r.
       \<lparr>date = Date r,
        amount = py_neg (py_sub (fillna0 (Debit r)) (fillna0 (Credit r))),
        description = Description r,
        account = ''RBC'',
        category = categorize_transaction CATEGORY_KEYWORDS (Description r)\<rparr>) csv)"

subsection \<open>Threshold checker (\<^verbatim>\<open>etl/threshold_checker.py\<close>)\<close>

text \<open>
  A Python dict is an association list with distinct keys, in insertion order;
  \<open>dict_set\<close> is the assignment \<^verbatim>\<open>d[k] = v\<close>.
\<close>

type_synonym threshold_config = "(string \<times> pyfloat) list"

fun dict_set :: "('k \<times> 'v) list \<Rightarrow> 'k \<Rightarrow> 'v \<Rightarrow> ('k \<times> 'v) list" where
  "dict_set [] k v = [(k, v)]"
| "dict_set ((k', v') # d) k v =
     (if k' = k then (k, v) # d else (k', v') # dict_set d k v)"

text \<open>
  The configuration file as \<^verbatim>\<open>open\<close> and \<^verbatim>\<open>json.load\<close> find it: absent, not
  JSON, or a JSON list of objects. Of an object only the keys \<open>category\<close> and \<open>limit\<close>
  are read; \<open>None\<close> stands for an object without the key.
\<close>

record threshold_item =
  item_category :: "string option"
  item_limit :: "pyfloat option"

datatype config_file = FileNotFound | JSONDecodeError | Records "threshold_item list"

text \<open>The dict comprehension: a missing key raises \<open>KeyError\<close>.\<close>

fun threshold_dict :: "threshold_item list \<Rightarrow> threshold_config \<Rightarrow> py_error + threshold_config" where
  "threshold_dict [] d = Inr d"
| "threshold_dict (item # items) d =
     (case item_category item of
        None \<Rightarrow> Inl KeyError
      | Some c \<Rightarrow>
          (case item_limit item of
             None \<Rightarrow> Inl KeyError
           | Some l \<Rightarrow> threshold_dict items (dict_set d c l)))"

definition load_threshold_config :: "config_file \<Rightarrow> py_error + threshold_config" where
  "load_threshold_config config =
     (case config of
        FileNotFound \<Rightarrow> Inr []
      | JSONDecodeError \<Rightarrow> Inr []
      | Records threshold_data \<Rightarrow> threshold_dict threshold_data [])"

record txn_threshold = txn +
  threshold :: pyfloat

record violation = txn_threshold +
  excess_amount :: pyfloat

text \<open>\<^verbatim>\<open>Series.map(dict)\<close> on one cell: a key that is not in the dict gives NaN.\<close>

definition map_threshold :: "threshold_config \<Rightarrow> string \<Rightarrow> pyfloat" where
  "map_threshold threshold_config c =
     (case map_of threshold_config c of None \<Rightarrow> NaN | Some l \<Rightarrow> l)"

definition check_transaction_thresholds ::
  "txn frame \<Rightarrow> threshold_config \<Rightarrow> violation frame" where
  "check_transaction_thresholds transactions_df threshold_config =
     (let df = map (\<lambda>(x, t).
                 (x, txn.extend t
                       (txn_threshold.fields (map_threshold threshold_config (category t)))))
                transactions_df;
          exceeded_thresholds =
            filter (\<lambda>(x, r). py_gt (threshold r) (Fin 0) \<and>
                               py_gt (py_abs (amount r)) (threshold r)) df
      in map (\<lambda>(x, r).
                (x, txn_threshold.extend r
                      (violation.fields (py_sub (py_abs (amount r)) (threshold r)))))
             exceeded_thresholds)"

text \<open>
  \<^verbatim>\<open>print_threshold_violations\<close> writes a report to standard output and changes
  nothing: it sorts a copy by \<open>excess_amount\<close>, descending, and formats each row of it.
  Output is not modelled; what remains is whether the call raises. Formatting a row calls
  \<^verbatim>\<open>strftime\<close> on its date, which raises \<open>ValueError\<close> on a missing date (NaT).
\<close>

definition print_threshold_violations :: "violation frame \<Rightarrow> py_error option" where
  "print_threshold_violations exceeded_transactions =
     (if list_ex (\<lambda>(x, r). date r = None) exceeded_transactions
      then Some ValueError else None)"

definition analyze_threshold_violations ::
  "txn frame \<Rightarrow> config_file \<Rightarrow> py_error + violation frame" where
  "analyze_threshold_violations transactions_df config =
     (case load_threshold_config config of
        Inl e \<Rightarrow> Inl e
      | Inr threshold_config \<Rightarrow>
          if threshold_config = [] then Inr []
          else
            (let exceeded_transactions =
                   check_transaction_thresholds transactions_df threshold_config
             in case print_threshold_violations exceeded_transactions of
                  Some e \<Rightarrow> Inl e
                | None \<Rightarrow> Inr exceeded_transactions))"

text \<open>
  The specification's words: a transaction violates its threshold when its category has
  a limit above 0 in the mapping and the absolute amount is above that limit.
\<close>

definition exceeds_limit :: "threshold_config \<Rightarrow> txn \<Rightarrow> bool" where
  "exceeds_limit rules t =
     (case map_of rules (category t) of
        Some (Fin l) \<Rightarrow> 0 < l \<and> (case amount t of Fin a \<Rightarrow> l < \<bar>a\<bar> | NaN \<Rightarrow> False)
      | _ \<Rightarrow> False)"

text \<open>
  The specification's words: a sequence of violations is ordered by \<open>excess_amount\<close>
  descending.
\<close>

definition excess_descending :: "violation frame \<Rightarrow> bool" where
  "excess_descending vs =
     sorted_wrt (\<lambda>v w. py_le (excess_amount (snd w)) (excess_amount (snd v))) vs"

subsection \<open>Credit filter (\<^verbatim>\<open>etl/filter_negs.py\<close>)\<close>










subsection \<open>Combining the statements (\<^verbatim>\<open>main.py\<close>, \<^verbatim>\<open>load_and_process_data\<close>)\<close>

text \<open>\<^verbatim>\<open>pd.concat(dfs, ignore_index=True)\<close>: the rows in the order of the list, relabelled.\<close>

definition concat_ignore_index :: "txn frame list \<Rightarrow> txn frame" where
  "concat_ignore_index dfs = range_index (map snd (concat dfs))"

text \<open>
  \<^verbatim>\<open>sort_values(by="date", ascending=True)\<close>. The source leaves \<^verbatim>\<open>kind\<close> at its
  default, \<^verbatim>\<open>quicksort\<close>, which pandas documents as not stable, and the sorting routine
  is not part of the sources. What the call fixes is: the result is a rearrangement of the
  frame, each row under its label; the rows with a date come first, by date ascending; the
  rows without a date follow in the order they had (\<^verbatim>\<open>na_position\<close> is \<open>last\<close>). The
  order among rows of one date is left open, so the call is a relation between the frame
  and a result.
\<close>

definition sort_values_date :: "txn frame \<Rightarrow> txn frame \<Rightarrow> bool" where
  "sort_values_date df sorted_df =
     (let n = length (filter (\<lambda>(x, t). date t \<noteq> None) df)
      in mset (take n sorted_df) = mset (filter (\<lambda>(x, t). date t \<noteq> None) df) \<and>
         sorted (map (\<lambda>(x, t). the (date t)) (take n sorted_df)) \<and>
         drop n sorted_df = filter (\<lambda>(x, t). date t = None) df)"

text \<open>
  Lines 36 to 38 of \<^verbatim>\<open>main.py\<close>: concatenate, sort by date, reset the index
  (\<^verbatim>\<open>to_datetime\<close> changes no date of the model).
\<close>

definition combine :: "txn frame list \<Rightarrow> txn frame \<Rightarrow> bool" where
  "combine dfs combined_df =
     (\<exists>sorted_df. sort_values_date (concat_ignore_index dfs) sorted_df \<and>
        combined_df = range_index (map snd sorted_df))"


subsection \<open>Persistence (\<^verbatim>\<open>etl/database.py\<close> and the upload branch of \<^verbatim>\<open>main\<close>)\<close>

text \<open>
  The table \<open>txn\<close> as \<^verbatim>\<open>create_txn_table\<close> declares it: \<open>dt DATE NOT NULL\<close>,
  \<open>amt DECIMAL(8,2) NOT NULL\<close>, \<open>desc\<close>, \<open>account\<close> and \<open>category\<close> as text. The key
  \<open>txn_id\<close> and the two timestamps are assigned by the store and are not modelled. The
  store is reachable or not: when it is not, every statement raises.
\<close>

record txn_row =
  dt :: date
  amt :: rat
  desc :: string
  row_account :: string
  row_category :: string

record database =
  txn_table :: "txn_row list"
  reachable :: bool

text \<open>
  A value stored in a \<open>DECIMAL(8,2)\<close> column is rounded to two decimals, half away from
  zero; the statement fails with a numeric overflow when the rounded value has more than
  six digits before the point.
\<close>

definition round2 :: "rat \<Rightarrow> rat" where
  "round2 a =
     (if 0 \<le> a then of_int \<lfloor>a * 100 + 1 / 2\<rfloor> / 100
      else - (of_int \<lfloor>- a * 100 + 1 / 2\<rfloor> / 100))"

definition decimal_8_2 :: "rat \<Rightarrow> rat option" where
  "decimal_8_2 a = (if \<bar>round2 a\<bar> < 1000000 then Some (round2 a) else None)"

text \<open>
  \<^verbatim>\<open>df_clean\<close>: the five columns under the names of the table. Every frame of the model
  has the five columns, so \<^verbatim>\<open>missing_columns\<close> is empty; \<^verbatim>\<open>to_datetime\<close> and
  \<^verbatim>\<open>to_numeric(errors='coerce')\<close> leave a date and a float as they are. \<^verbatim>\<open>dropna()\<close>
  removes every row with a missing cell.
\<close>

definition dropna :: "txn frame \<Rightarrow> txn frame" where
  "dropna df = filter (\<lambda>(x, t). date t \<noteq> None \<and> \<not> isnan (amount t)) df"

text \<open>The row the store keeps for one row of the frame; \<open>None\<close> when it rejects the row.\<close>

definition sql_values :: "txn \<Rightarrow> txn_row option" where
  "sql_values t =
     (case date t of
        None \<Rightarrow> None
      | Some d \<Rightarrow>
          (case amount t of
             NaN \<Rightarrow> None
           | Fin a \<Rightarrow>
               (case decimal_8_2 a of
                  None \<Rightarrow> None
                | Some r \<Rightarrow>
                    Some \<lparr>dt = d, amt = r, desc = description t, row_account = account t,
                          row_category = category t\<rparr>)))"

text \<open>
  \<^verbatim>\<open>to_sql(..., if_exists='append', method='multi')\<close>: one insert statement in one
  transaction. It appends every row, or raises (\<open>None\<close>) and appends nothing.
\<close>

definition to_sql :: "txn frame \<Rightarrow> database \<Rightarrow> database option" where
  "to_sql df db =
     (if reachable db
      then (case those (map (\<lambda>(x, t). sql_values t) df) of
              None \<Rightarrow> None
            | Some rs \<Rightarrow> Some (db\<lparr>txn_table := txn_table db @ rs\<rparr>))
      else None)"

definition insert_transactions :: "txn frame \<Rightarrow> database \<Rightarrow> bool \<times> database" where
  "insert_transactions df db =
     (let df_clean = dropna df
      in if df_clean = [] then (False, db)
         else (case to_sql df_clean db of
                 None \<Rightarrow> (False, db)
               | Some db' \<Rightarrow> (True, db')))"

text \<open>
  The first day of the month and the first day of the next month. The month and the year
  are those of a parsed date, so \<^verbatim>\<open>date(year, month, 1)\<close> does not raise.
\<close>

definition month_bounds :: "nat \<Rightarrow> nat \<Rightarrow> date \<times> date" where
  "month_bounds month year =
     ((year, month, 1), if month = 12 then (year + 1, 1, 1) else (year, month + 1, 1))"

text \<open>
  \<^verbatim>\<open>get_transactions(start_date, end_date)\<close> selects \<open>dt >= start_date AND dt <= end_date\<close>
  and returns an empty frame when the query raises; only whether the selection is empty
  and its length are used.
\<close>

definition check_month_year_exists :: "database \<Rightarrow> nat \<Rightarrow> nat \<Rightarrow> bool \<times> nat" where
  "check_month_year_exists db month year =
     (let (start_date, end_date) = month_bounds month year;
          existing_data =
            (if reachable db
             then filter (\<lambda>r. start_date \<le> dt r \<and> dt r \<le> end_date) (txn_table db)
             else [])
      in (existing_data \<noteq> [], length existing_data))"

text \<open>
  \<^verbatim>\<open>DELETE FROM txn WHERE dt >= start_date AND dt < end_date\<close>, followed by
  \<^verbatim>\<open>conn.commit()\<close> on a connection of its own.
\<close>

definition clear_month_year_data :: "database \<Rightarrow> nat \<Rightarrow> nat \<Rightarrow> bool \<times> database" where
  "clear_month_year_data db month year =
     (let (start_date, end_date) = month_bounds month year
      in if reachable db
         then (True, db\<lparr>txn_table :=
                 filter (\<lambda>r. \<not> (start_date \<le> dt r \<and> dt r < end_date)) (txn_table db)\<rparr>)
         else (False, db))"

text \<open>
  Lines 342 to 366 of \<^verbatim>\<open>main\<close>, the replacement of one month: \<open>overwrite\<close> is the
  operator's answer to the question whether existing data are to be overwritten.
\<close>

datatype upload_result = Uploaded | Cancelled | ClearFailed | UploadFailed

definition upload :: "txn frame \<Rightarrow> database \<Rightarrow> upload_result \<times> database" where
  "upload combined_df db =
     (case insert_transactions combined_df db of
        (True, db') \<Rightarrow> (Uploaded, db')
      | (False, db') \<Rightarrow> (UploadFailed, db'))"

definition main_upload ::
  "txn frame \<Rightarrow> nat \<Rightarrow> nat \<Rightarrow> bool \<Rightarrow> database \<Rightarrow> upload_result \<times> database" where
  "main_upload combined_df data_month data_year overwrite db =
     (let (exists, count) = check_month_year_exists db data_month data_year
      in if exists
         then (if overwrite
               then (case clear_month_year_data db data_month data_year of
                       (False, db') \<Rightarrow> (ClearFailed, db')
                     | (True, db') \<Rightarrow> upload combined_df db')
               else (Cancelled, db))
         else upload combined_df db)"

text \<open>The rows of a table that fall in a month.\<close>

definition in_month :: "nat \<Rightarrow> nat \<Rightarrow> txn_row \<Rightarrow> bool" where
  "in_month month year r =
     (fst (month_bounds month year) \<le> dt r \<and> dt r < snd (month_bounds month year))"

section \<open>Theorems\<close>

subsection \<open>Categorisation\<close>






subsection \<open>Threshold checker\<close>

lemma exceeded_mask_iff:
  "(py_gt (map_threshold rules (category t)) (Fin 0) \<and>
    py_gt (py_abs (amount t)) (map_threshold rules (category t))) = exceeds_limit rules t"
  by (cases "amount t")
     (auto simp: map_threshold_def exceeds_limit_def split: option.splits pyfloat.splits)

lemma check_transaction_thresholds_rows:
  "check_transaction_thresholds df rules =
     map (\<lambda>(x, t). (x, txn_threshold.extend
            (txn.extend t (txn_threshold.fields (map_threshold rules (category t))))
            (violation.fields (py_sub (py_abs (amount t)) (map_threshold rules (category t))))))
         (filter (\<lambda>(x, t). exceeds_limit rules t) df)"
  unfolding check_transaction_thresholds_def Let_def
  by (induction df)
     (auto simp: exceeded_mask_iff [symmetric] txn.defs txn_threshold.defs violation.defs)

lemma check_transaction_thresholds_truncate:
  "map (\<lambda>(x, v). (x, txn.truncate v)) (check_transaction_thresholds df rules) =
   filter (\<lambda>(x, t). exceeds_limit rules t) df"
  unfolding check_transaction_thresholds_rows
  by (induction df) (auto simp: txn.defs txn_threshold.defs violation.defs)

lemma exceeds_limitD:
  "exceeds_limit rules t \<Longrightarrow>
   \<exists>l a. map_of rules (category t) = Some (Fin l) \<and> amount t = Fin a \<and> 0 < l \<and> l < \<bar>a\<bar>"
  by (auto simp: exceeds_limit_def split: option.splits pyfloat.splits)

lemma check_transaction_thresholds_annotation:
  assumes "(x, v) \<in> set (check_transaction_thresholds df rules)"
  shows "\<exists>l a. map_of rules (category v) = Some (Fin l) \<and> 0 < l \<and> amount v = Fin a \<and>
           l < \<bar>a\<bar> \<and> threshold v = Fin l \<and> excess_amount v = Fin (\<bar>a\<bar> - l) \<and>
           0 < \<bar>a\<bar> - l"
proof -
  from assms obtain t where t: "exceeds_limit rules t"
    and v: "v = txn_threshold.extend
            (txn.extend t (txn_threshold.fields (map_threshold rules (category t))))
            (violation.fields (py_sub (py_abs (amount t)) (map_threshold rules (category t))))"
    unfolding check_transaction_thresholds_rows by auto
  from exceeds_limitD [OF t] obtain l a where
    la: "map_of rules (category t) = Some (Fin l)" "amount t = Fin a" "0 < l" "l < \<bar>a\<bar>"
    by blast
  then show ?thesis
    by (simp add: v map_threshold_def txn.defs txn_threshold.defs violation.defs)
qed

text \<open>
  C5. For every frame of transactions and every threshold mapping,
  \<^const>\<open>check_transaction_thresholds\<close> returns exactly the rows whose category has a
  limit above 0 in the mapping and whose absolute amount is above that limit, in the
  order and under the labels of the input (a category that is not in the mapping, a limit
  that is not above 0 and a missing amount are skipped). Every returned row carries the
  limit as \<open>threshold\<close> and \<open>excess_amount = abs(amount) - threshold\<close>, which is
  above 0.
\<close>

theorem check_transaction_thresholds_exact:
  "map (\<lambda>(x, v). (x, txn.truncate v)) (check_transaction_thresholds df rules) =
     filter (\<lambda>(x, t). exceeds_limit rules t) df \<and>
   (\<forall>(x, v) \<in> set (check_transaction_thresholds df rules).
      \<exists>l a. map_of rules (category v) = Some (Fin l) \<and> 0 < l \<and> amount v = Fin a \<and>
            l < \<bar>a\<bar> \<and> threshold v = Fin l \<and> excess_amount v = Fin (\<bar>a\<bar> - l) \<and>
            0 < \<bar>a\<bar> - l)"
  using check_transaction_thresholds_truncate check_transaction_thresholds_annotation
  by blast

theorem check_transaction_thresholds_exact_witness:
  "map (\<lambda>(x, v). (x, txn.truncate v))
     (check_transaction_thresholds
        [(0, \<lparr>date = Some (2025, 1, 15), amount = Fin 150, description = ''Sample Restaurant'',
              account = ''AMEX Gold'', category = ''Dining''\<rparr>),
         (1, \<lparr>date = Some (2025, 1, 25), amount = Fin 25, description = ''Sample Coffee'',
              account = ''AMEX Cobalt'', category = ''Coffee''\<rparr>),
         (2, \<lparr>date = Some (2025, 1, 30), amount = Fin 500, description = ''Sample Travel'',
              account = ''RBC'', category = ''Travel''\<rparr>)]
        [(''Dining'', Fin 100), (''Coffee'', Fin 50), (''Travel'', Fin 0)]) =
     [(0, \<lparr>date = Some (2025, 1, 15), amount = Fin 150, description = ''Sample Restaurant'',
              account = ''AMEX Gold'', category = ''Dining''\<rparr>)] \<and>
   map (\<lambda>p. excess_amount (snd p))
     (check_transaction_thresholds
        [(0, \<lparr>date = Some (2025, 1, 15), amount = Fin 150, description = ''Sample Restaurant'',
              account = ''AMEX Gold'', category = ''Dining''\<rparr>),
         (1, \<lparr>date = Some (2025, 1, 25), amount = Fin 25, description = ''Sample Coffee'',
              account = ''AMEX Cobalt'', category = ''Coffee''\<rparr>),
         (2, \<lparr>date = Some (2025, 1, 30), amount = Fin 500, description = ''Sample Travel'',
              account = ''RBC'', category = ''Travel''\<rparr>)]
        [(''Dining'', Fin 100), (''Coffee'', Fin 50), (''Travel'', Fin 0)]) = [Fin 50]"
proof -
  let ?df = "[(0::nat, \<lparr>date = Some (2025, 1, 15), amount = Fin 150, description = ''Sample Restaurant'',
              account = ''AMEX Gold'', category = ''Dining''\<rparr>),
         (1, \<lparr>date = Some (2025, 1, 25), amount = Fin 25, description = ''Sample Coffee'',
              account = ''AMEX Cobalt'', category = ''Coffee''\<rparr>),
         (2, \<lparr>date = Some (2025, 1, 30), amount = Fin 500, description = ''Sample Travel'',
              account = ''RBC'', category = ''Travel''\<rparr>)]"
  let ?rules = "[(''Dining'', Fin 100), (''Coffee'', Fin 50), (''Travel'', Fin 0)]"
  have f: "filter (\<lambda>(x, t). exceeds_limit ?rules t) ?df = [hd ?df]"
    by (simp add: exceeds_limit_def)
  have e: "map (\<lambda>p. excess_amount (snd p)) (check_transaction_thresholds ?df ?rules) = [Fin 50]"
    by (simp add: check_transaction_thresholds_def map_threshold_def txn.defs
        txn_threshold.defs violation.defs)
  from check_transaction_thresholds_exact [of ?df ?rules] f e show ?thesis
    by simp
qed

lemma exceeds_limit_empty: "\<not> exceeds_limit [] t"
  by (simp add: exceeds_limit_def)

lemma check_transaction_thresholds_dates:
  "list_ex (\<lambda>(x, r). date r = None) (check_transaction_thresholds df rules) =
   list_ex (\<lambda>(x, t). exceeds_limit rules t \<and> date t = None) df"
  unfolding check_transaction_thresholds_rows
  by (induction df) (auto simp: txn.defs txn_threshold.defs violation.defs)

text \<open>
  C6, as the code has it. \<^const>\<open>analyze_threshold_violations\<close> returns the violations
  in the row order of its input: what it returns is, column for column, the subsequence
  of the input rows that exceed their limit. It returns whenever the configuration loads
  and no violating row lacks a date (the report cannot format a missing date). The
  descending order by \<open>excess_amount\<close> is given only to the copy that the report prints,
  which is not returned.
\<close>

theorem analyze_threshold_violations_input_order:
  assumes "load_threshold_config config = Inr rules"
    and "\<forall>(x, t) \<in> set df. exceeds_limit rules t \<longrightarrow> date t \<noteq> None"
  shows "\<exists>out. analyze_threshold_violations df config = Inr out \<and>
           map (\<lambda>(x, v). (x, txn.truncate v)) out =
             filter (\<lambda>(x, t). exceeds_limit rules t) df"
proof (cases "rules = []")
  case True
  then show ?thesis
    using assms(1) by (simp add: analyze_threshold_violations_def exceeds_limit_empty)
next
  case False
  from assms(2) have "\<not> list_ex (\<lambda>(x, t). exceeds_limit rules t \<and> date t = None) df"
    by (auto simp: list_ex_iff)
  then have "print_threshold_violations (check_transaction_thresholds df rules) = None"
    by (simp add: print_threshold_violations_def check_transaction_thresholds_dates)
  with False assms(1) show ?thesis
    by (simp add: analyze_threshold_violations_def Let_def
        check_transaction_thresholds_truncate)
qed

theorem analyze_threshold_violations_input_order_witness:
  "\<exists>out. analyze_threshold_violations
      [(0, \<lparr>date = Some (2025, 1, 15), amount = Fin 150, description = ''Sample Restaurant'',
            account = ''AMEX Gold'', category = ''Dining''\<rparr>),
       (1, \<lparr>date = Some (2025, 1, 20), amount = Fin 300, description = ''Sample Bistro'',
            account = ''RBC'', category = ''Dining''\<rparr>)]
      (Records [\<lparr>item_category = Some ''Dining'', item_limit = Some (Fin 100)\<rparr>]) = Inr out \<and>
    map (\<lambda>(x, v). (x, txn.truncate v)) out =
      [(0, \<lparr>date = Some (2025, 1, 15), amount = Fin 150, description = ''Sample Restaurant'',
            account = ''AMEX Gold'', category = ''Dining''\<rparr>),
       (1, \<lparr>date = Some (2025, 1, 20), amount = Fin 300, description = ''Sample Bistro'',
            account = ''RBC'', category = ''Dining''\<rparr>)]"
proof -
  let ?df = "[(0::nat, \<lparr>date = Some (2025, 1, 15), amount = Fin 150,
                 description = ''Sample Restaurant'',
                 account = ''AMEX Gold'', category = ''Dining''\<rparr>),
              (1, \<lparr>date = Some (2025, 1, 20), amount = Fin 300, description = ''Sample Bistro'',
                 account = ''RBC'', category = ''Dining''\<rparr>)]"
  let ?config = "Records [\<lparr>item_category = Some ''Dining'', item_limit = Some (Fin 100)\<rparr>]"
  let ?rules = "[(''Dining'', Fin 100)]"
  have l: "load_threshold_config ?config = Inr ?rules"
    by (simp add: load_threshold_config_def)
  have d: "\<forall>(x, t) \<in> set ?df. exceeds_limit ?rules t \<longrightarrow> date t \<noteq> None"
    by simp
  have f: "filter (\<lambda>(x, t). exceeds_limit ?rules t) ?df = ?df"
    by (simp add: exceeds_limit_def)
  from analyze_threshold_violations_input_order [OF l d] f show ?thesis
    by simp
qed

text \<open>
  The claim as stated fails: two violations whose excess grows along the input come back
  in the input's order, excess 50 before excess 200.
\<close>

theorem analyze_threshold_violations_descending_counterexample:
  "analyze_threshold_violations
      [(0, \<lparr>date = Some (2025, 1, 15), amount = Fin 150, description = ''Sample Restaurant'',
            account = ''AMEX Gold'', category = ''Dining''\<rparr>),
       (1, \<lparr>date = Some (2025, 1, 20), amount = Fin 300, description = ''Sample Bistro'',
            account = ''RBC'', category = ''Dining''\<rparr>)]
      (Records [\<lparr>item_category = Some ''Dining'', item_limit = Some (Fin 100)\<rparr>]) =
    Inr [(0, \<lparr>date = Some (2025, 1, 15), amount = Fin 150, description = ''Sample Restaurant'',
            account = ''AMEX Gold'', category = ''Dining'', threshold = Fin 100,
            excess_amount = Fin 50\<rparr>),
         (1, \<lparr>date = Some (2025, 1, 20), amount = Fin 300, description = ''Sample Bistro'',
            account = ''RBC'', category = ''Dining'', threshold = Fin 100,
            excess_amount = Fin 200\<rparr>)] \<and>
   \<not> excess_descending
     [(0, \<lparr>date = Some (2025, 1, 15), amount = Fin 150, description = ''Sample Restaurant'',
            account = ''AMEX Gold'', category = ''Dining'', threshold = Fin 100,
            excess_amount = Fin 50\<rparr>),
      (1, \<lparr>date = Some (2025, 1, 20), amount = Fin 300, description = ''Sample Bistro'',
            account = ''RBC'', category = ''Dining'', threshold = Fin 100,
            excess_amount = Fin 200\<rparr>)]"
  by (simp add: analyze_threshold_violations_def load_threshold_config_def
      check_transaction_thresholds_def print_threshold_violations_def map_threshold_def
      excess_descending_def txn.defs txn_threshold.defs violation.defs)



subsection \<open>Statement adapters\<close>

lemma map_snd_range_index: "map snd (range_index rs) = rs"
  by (simp add: range_index_def)

lemma map_fst_range_index: "map fst (range_index rs) = [0..<length rs]"
  by (simp add: range_index_def)


lemma map_on_rows: "map (\<lambda>p. f (snd p)) (range_index (map g rs)) = map (\<lambda>r. f (g r)) rs"
proof -
  have "map (\<lambda>p. f (snd p)) (range_index (map g rs)) = map f (map snd (range_index (map g rs)))"
    by (simp add: comp_def)
  then show ?thesis by (simp add: map_snd_range_index comp_def)
qed

lemma rbc_sign: "py_gt (py_neg (py_sub (fillna0 d) (fillna0 c))) (Fin 0) = py_gt (fillna0 c) (fillna0 d)"
  by (cases d; cases c) auto

lemma scotia_sign: "py_gt (py_neg a) (Fin 0) = py_gt (Fin 0) a"
  by (cases a) auto

text \<open>
  C1, as the code has it. Each adapter fixes the sign of \<open>amount\<close> by a rule of its own,
  whatever the file's convention is: CIBC and AMEX keep the file's amount, Scotia negates
  it, and RBC returns \<open>Credit - Debit\<close>, a blank cell counting 0. So a row comes out with
  \<open>amount > 0\<close> exactly when the file's amount is above 0 (CIBC, AMEX), below 0
  (Scotia), or when Credit is above Debit (RBC). An RBC row with a positive Debit and a
  zero Credit comes out with the negative amount \<open>- Debit\<close>.
\<close>

theorem adapters_amount_sign:
  "map (\<lambda>p. py_gt (amount (snd p)) (Fin 0)) (process_cibc_statement K cibc_path cibc) =
     map (\<lambda>r. py_gt (amount r) (Fin 0)) cibc \<and>
   map (\<lambda>p. py_gt (amount (snd p)) (Fin 0)) (process_amex_statement K amex_path amex) =
     map (\<lambda>r. py_gt (Amount r) (Fin 0)) amex \<and>
   map (\<lambda>p. py_gt (amount (snd p)) (Fin 0)) (process_scotia_statement K scotia_path scotia) =
     map (\<lambda>r. py_gt (Fin 0) (Amount r)) scotia \<and>
   map (\<lambda>p. py_gt (amount (snd p)) (Fin 0)) (process_rbc_statement K rbc_path rbc) =
     map (\<lambda>r. py_gt (fillna0 (Credit r)) (fillna0 (Debit r))) rbc \<and>
   (\<forall>i d. i < length rbc \<and> Debit (rbc ! i) = Fin d \<and> 0 < d \<and> Credit (rbc ! i) = Fin 0 \<longrightarrow>
      amount (snd (process_rbc_statement K rbc_path rbc ! i)) = Fin (- d))"
proof -
  note rows = map_on_rows [where f = "\<lambda>t. py_gt (amount t) (Fin 0)"]
  have "\<And>i d. i < length rbc \<Longrightarrow> Debit (rbc ! i) = Fin d \<Longrightarrow> Credit (rbc ! i) = Fin 0 \<Longrightarrow>
      amount (snd (process_rbc_statement K rbc_path rbc ! i)) = Fin (- d)"
    by (simp add: process_rbc_statement_def range_index_def)
  moreover have "map (\<lambda>p. py_gt (amount (snd p)) (Fin 0)) (process_cibc_statement K cibc_path cibc) =
     map (\<lambda>r. py_gt (amount r) (Fin 0)) cibc"
    by (simp add: process_cibc_statement_def rows)
  moreover have "map (\<lambda>p. py_gt (amount (snd p)) (Fin 0))
       (process_amex_statement K amex_path amex) = map (\<lambda>r. py_gt (Amount r) (Fin 0)) amex"
    by (simp add: process_amex_statement_def rows)
  moreover have "map (\<lambda>p. py_gt (amount (snd p)) (Fin 0))
       (process_scotia_statement K scotia_path scotia) =
     map (\<lambda>r. py_gt (Fin 0) (Amount r)) scotia"
    by (simp add: process_scotia_statement_def rows scotia_sign)
  moreover have "map (\<lambda>p. py_gt (amount (snd p)) (Fin 0))
       (process_rbc_statement K rbc_path rbc) =
     map (\<lambda>r. py_gt (fillna0 (Credit r)) (fillna0 (Debit r))) rbc"
    by (simp add: process_rbc_statement_def rows rbc_sign)
  ultimately show ?thesis by blast
qed

theorem adapters_amount_sign_witness:
  "map (\<lambda>p. py_gt (amount (snd p)) (Fin 0))
     (process_rbc_statement [(''Groceries'', [''grocery''])] ''data/rbcStmt.csv''
        [\<lparr>Date = Some (2025, 6, 3), Description = ''GROCERY STORE'', Debit = Fin 50,
          Credit = Fin 0\<rparr>,
         \<lparr>Date = Some (2025, 6, 9), Description = ''PAYMENT THANK YOU'', Debit = NaN,
          Credit = Fin 120\<rparr>]) = [False, True] \<and>
   amount (snd (process_rbc_statement [(''Groceries'', [''grocery''])] ''data/rbcStmt.csv''
        [\<lparr>Date = Some (2025, 6, 3), Description = ''GROCERY STORE'', Debit = Fin 50,
          Credit = Fin 0\<rparr>,
         \<lparr>Date = Some (2025, 6, 9), Description = ''PAYMENT THANK YOU'', Debit = NaN,
          Credit = Fin 120\<rparr>] ! 0)) = Fin (- 50) \<and>
   map (\<lambda>p. py_gt (amount (snd p)) (Fin 0))
     (process_scotia_statement [(''Groceries'', [''grocery''])] ''data/scotiaStmt.csv''
        [\<lparr>Date = Some (2025, 6, 4), Description = ''COFFEE SHOP'', Amount = Fin (- 4)\<rparr>])
     = [True]"
proof -
  let ?K = "[(''Groceries'', [''grocery''])]"
  let ?rbc = "[\<lparr>Date = Some (2025, 6, 3), Description = ''GROCERY STORE'', Debit = Fin 50,
          Credit = Fin 0\<rparr>,
         \<lparr>Date = Some (2025, 6, 9), Description = ''PAYMENT THANK YOU'', Debit = NaN,
          Credit = Fin 120\<rparr>]"
  let ?scotia = "[\<lparr>Date = Some (2025, 6, 4), Description = ''COFFEE SHOP'', Amount = Fin (- 4)\<rparr>]"
  note t = adapters_amount_sign [of ?K _ "[]" _ "[]" "''data/scotiaStmt.csv''" ?scotia
      "''data/rbcStmt.csv''" ?rbc]
  from t have r: "map (\<lambda>p. py_gt (amount (snd p)) (Fin 0))
       (process_rbc_statement ?K ''data/rbcStmt.csv'' ?rbc) = [False, True]"
    by simp
  from t have s: "map (\<lambda>p. py_gt (amount (snd p)) (Fin 0))
       (process_scotia_statement ?K ''data/scotiaStmt.csv'' ?scotia) = [True]"
    by simp
  from t have "0 < length ?rbc \<and> Debit (?rbc ! 0) = Fin 50 \<and> (0::rat) < 50 \<and>
       Credit (?rbc ! 0) = Fin 0 \<longrightarrow>
       amount (snd (process_rbc_statement ?K ''data/rbcStmt.csv'' ?rbc ! 0)) = Fin (- 50)"
    by blast
  then have a: "amount (snd (process_rbc_statement ?K ''data/rbcStmt.csv'' ?rbc ! 0)) = Fin (- 50)"
    by simp
  from r s a show ?thesis by simp
qed

text \<open>
  The claim as stated fails for RBC: a row with Debit 50 and Credit 0 comes out with
  amount -50, which is not above 0.
\<close>

theorem process_rbc_statement_debit_counterexample:
  "process_rbc_statement [(''Groceries'', [''grocery''])] ''data/rbcStmt.csv''
     [\<lparr>Date = Some (2025, 6, 3), Description = ''GROCERY STORE'', Debit = Fin 50,
       Credit = Fin 0\<rparr>] =
     [(0, \<lparr>date = Some (2025, 6, 3), amount = Fin (- 50), description = ''GROCERY STORE'',
           account = ''RBC'', category = ''Groceries''\<rparr>)] \<and>
   \<not> py_gt (Fin (- 50)) (Fin 0)"
proof -
  have "categorize_transaction [(''Groceries'', [''grocery''])] ''GROCERY STORE'' = ''Groceries''"
    by code_simp
  then show ?thesis
    by (simp add: process_rbc_statement_def range_index_def)
qed

subsection \<open>Credit filter\<close>













subsection \<open>Persistence\<close>

lemma those_map_Some:
  "those (map f xs) = (if list_all (\<lambda>x. f x \<noteq> None) xs then Some (map (\<lambda>x. the (f x)) xs) else None)"
  by (induction xs) (auto split: option.splits)

lemma insert_transactions_cases:
  "insert_transactions df db =
     (if dropna df \<noteq> [] \<and> reachable db \<and> list_all (\<lambda>(x, t). sql_values t \<noteq> None) (dropna df)
      then (True, db\<lparr>txn_table := txn_table db @ map (\<lambda>(x, t). the (sql_values t)) (dropna df)\<rparr>)
      else (False, db))"
proof -
  have those: "those (map (\<lambda>(x, t). sql_values t) (dropna df)) =
      (if list_all (\<lambda>(x, t). sql_values t \<noteq> None) (dropna df)
       then Some (map (\<lambda>(x, t). the (sql_values t)) (dropna df)) else None)"
    by (simp add: those_map_Some case_prod_unfold)
  show ?thesis
    unfolding insert_transactions_def to_sql_def Let_def those
    by simp
qed

lemma insert_transactions_failed:
  "\<not> fst (insert_transactions df db) \<Longrightarrow> snd (insert_transactions df db) = db"
  by (cases "dropna df \<noteq> [] \<and> reachable db \<and>
        list_all (\<lambda>(x, t). sql_values t \<noteq> None) (dropna df)")
     (simp_all add: insert_transactions_cases)




lemma check_month_year_exists_reachable:
  "fst (check_month_year_exists db m y) \<Longrightarrow> reachable db"
  by (auto simp: check_month_year_exists_def Let_def case_prod_unfold split: if_splits)

lemma clear_month_year_data_reachable:
  "reachable db \<Longrightarrow>
   clear_month_year_data db m y =
     (True, db\<lparr>txn_table := filter (\<lambda>r. \<not> in_month m y r) (txn_table db)\<rparr>)"
  by (simp add: clear_month_year_data_def in_month_def case_prod_unfold Let_def)

text \<open>
  C2, as the code has it. Replacing a month is two transactions: the delete of the month's
  rows, committed by \<^const>\<open>clear_month_year_data\<close> on a connection of its own, and
  then the insert. When data exist for the month and the operator confirms, the month's
  rows are deleted; if the insert then succeeds, the table holds the other months' rows
  and the new rows; if the insert fails, the delete is not undone: the table is left with
  the month's rows deleted and none of the new rows. (The insert by itself changes
  nothing when it fails.)
\<close>

theorem main_upload_delete_is_committed:
  assumes "fst (check_month_year_exists db m y)"
  shows "(fst (insert_transactions df
              (db\<lparr>txn_table := filter (\<lambda>r. \<not> in_month m y r) (txn_table db)\<rparr>)) \<longrightarrow>
          main_upload df m y True db =
            (Uploaded, snd (insert_transactions df
              (db\<lparr>txn_table := filter (\<lambda>r. \<not> in_month m y r) (txn_table db)\<rparr>)))) \<and>
         (\<not> fst (insert_transactions df
              (db\<lparr>txn_table := filter (\<lambda>r. \<not> in_month m y r) (txn_table db)\<rparr>)) \<longrightarrow>
          main_upload df m y True db =
            (UploadFailed, db\<lparr>txn_table := filter (\<lambda>r. \<not> in_month m y r) (txn_table db)\<rparr>))"
proof -
  let ?cleared = "db\<lparr>txn_table := filter (\<lambda>r. \<not> in_month m y r) (txn_table db)\<rparr>"
  from assms have "reachable db"
    by (rule check_month_year_exists_reachable)
  then have c: "clear_month_year_data db m y = (True, ?cleared)"
    by (rule clear_month_year_data_reachable)
  from assms c have m: "main_upload df m y True db = upload df ?cleared"
    by (simp add: main_upload_def case_prod_unfold Let_def)
  show ?thesis
  proof (cases "fst (insert_transactions df ?cleared)")
    case True
    then show ?thesis
      by (simp add: m upload_def case_prod_unfold)
  next
    case False
    with insert_transactions_failed [OF False] show ?thesis
      by (simp add: m upload_def case_prod_unfold)
  qed
qed

text \<open>
  The claim as stated fails: the table holds one row of June 2025; the replacement batch
  for June 2025 holds an amount that does not fit \<open>DECIMAL(8,2)\<close>, so the insert fails
  after the delete was committed. The table is left empty: the old row is not restored.
\<close>

theorem main_upload_no_rollback_counterexample:
  "main_upload
     [(0, \<lparr>date = Some (2025, 6, 10), amount = Fin 1000000, description = ''HOUSE DEPOSIT'',
           account = ''CIBC Chequing'', category = ''Uncategorized''\<rparr>)]
     6 2025 True
     \<lparr>txn_table =
        [\<lparr>dt = (2025, 6, 3), amt = 50, desc = ''GROCERY STORE'', row_account = ''RBC'',
          row_category = ''Groceries''\<rparr>],
      reachable = True\<rparr> =
   (UploadFailed, \<lparr>txn_table = [], reachable = True\<rparr>)"
proof -
  have r: "decimal_8_2 1000000 = None"
    by code_simp
  show ?thesis
    by (simp add: main_upload_def check_month_year_exists_def month_bounds_def
        clear_month_year_data_def upload_def insert_transactions_def dropna_def to_sql_def
        sql_values_def r)
qed

theorem main_upload_delete_is_committed_witness:
  "main_upload
     [(0, \<lparr>date = Some (2025, 6, 10), amount = Fin 75, description = ''HARDWARE STORE'',
           account = ''CIBC Chequing'', category = ''Uncategorized''\<rparr>)]
     6 2025 True
     \<lparr>txn_table =
        [\<lparr>dt = (2025, 5, 30), amt = 20, desc = ''COFFEE SHOP'', row_account = ''Scotiabank'',
          row_category = ''Coffee''\<rparr>,
         \<lparr>dt = (2025, 6, 3), amt = 50, desc = ''GROCERY STORE'', row_account = ''RBC'',
          row_category = ''Groceries''\<rparr>],
      reachable = True\<rparr> =
   (Uploaded,
    \<lparr>txn_table =
        [\<lparr>dt = (2025, 5, 30), amt = 20, desc = ''COFFEE SHOP'', row_account = ''Scotiabank'',
          row_category = ''Coffee''\<rparr>,
         \<lparr>dt = (2025, 6, 10), amt = 75, desc = ''HARDWARE STORE'',
          row_account = ''CIBC Chequing'', row_category = ''Uncategorized''\<rparr>],
      reachable = True\<rparr>) \<and>
   main_upload
     [(0, \<lparr>date = Some (2025, 6, 10), amount = Fin 2000000, description = ''HOUSE DEPOSIT'',
           account = ''CIBC Chequing'', category = ''Uncategorized''\<rparr>)]
     6 2025 True
     \<lparr>txn_table =
        [\<lparr>dt = (2025, 5, 30), amt = 20, desc = ''COFFEE SHOP'', row_account = ''Scotiabank'',
          row_category = ''Coffee''\<rparr>,
         \<lparr>dt = (2025, 6, 3), amt = 50, desc = ''GROCERY STORE'', row_account = ''RBC'',
          row_category = ''Groceries''\<rparr>],
      reachable = True\<rparr> =
   (UploadFailed,
    \<lparr>txn_table =
        [\<lparr>dt = (2025, 5, 30), amt = 20, desc = ''COFFEE SHOP'', row_account = ''Scotiabank'',
          row_category = ''Coffee''\<rparr>],
      reachable = True\<rparr>)"
proof -
  let ?db = "\<lparr>txn_table =
        [\<lparr>dt = (2025, 5, 30), amt = 20, desc = ''COFFEE SHOP'', row_account = ''Scotiabank'',
          row_category = ''Coffee''\<rparr>,
         \<lparr>dt = (2025, 6, 3), amt = 50, desc = ''GROCERY STORE'', row_account = ''RBC'',
          row_category = ''Groceries''\<rparr>],
      reachable = True\<rparr>"
  let ?ok = "[(0::nat, \<lparr>date = Some (2025, 6, 10), amount = Fin 75, description = ''HARDWARE STORE'',
           account = ''CIBC Chequing'', category = ''Uncategorized''\<rparr>)]"
  let ?bad = "[(0::nat, \<lparr>date = Some (2025, 6, 10), amount = Fin 2000000,
           description = ''HOUSE DEPOSIT'',
           account = ''CIBC Chequing'', category = ''Uncategorized''\<rparr>)]"
  have e: "fst (check_month_year_exists ?db 6 2025)"
    by (simp add: check_month_year_exists_def month_bounds_def)
  have r1: "decimal_8_2 75 = Some 75"
    by code_simp
  have r2: "decimal_8_2 2000000 = None"
    by code_simp
  have i1: "\<not> in_month 6 2025 \<lparr>dt = (2025, 5, 30), amt = 20, desc = ''COFFEE SHOP'',
      row_account = ''Scotiabank'', row_category = ''Coffee''\<rparr>"
    by (simp add: in_month_def month_bounds_def)
  have i2: "in_month 6 2025 \<lparr>dt = (2025, 6, 3), amt = 50, desc = ''GROCERY STORE'',
      row_account = ''RBC'', row_category = ''Groceries''\<rparr>"
    by (simp add: in_month_def month_bounds_def)
  from main_upload_delete_is_committed [OF e, of ?ok]
    main_upload_delete_is_committed [OF e, of ?bad]
  show ?thesis
    by (simp add: i1 i2 insert_transactions_def dropna_def to_sql_def sql_values_def r1 r2)
qed

subsection \<open>Combining the statements\<close>













lemma combine_unique_labels: "combine dfs combined_df \<Longrightarrow> distinct (map fst combined_df)"
  unfolding combine_def by (auto simp: map_fst_range_index)





end
